theory Spec2Isabelle
  imports Main
begin

section \<open>Priorities and level policy\<close>

text \<open>
  Modelled from the spec: the \<open>level\<close> package (the \<open>Priority\<close> type, its constants and
  \<open>IsValid\<close>) is not among the sources. The spec fixes the named levels and their order
  (Emergency > Alert > Critical > Error > Warning > Notice > Info > Debug) and a
  distinguished \<open>Invalid\<close>, which is not a valid priority; the sources also use
  \<open>level.Trace\<close>, the level below Debug. \<open>Invalid\<close> is the priority of a composer that
  was given none (the \<open>Make...\<close> constructors set no level).
\<close>

datatype priority =
  Emergency | Alert | Critical | Error | Warning | Notice | Info | Debug | Trace | Invalid

fun rank :: "priority \<Rightarrow> nat" where
  "rank Emergency = 9"
| "rank Alert = 8"
| "rank Critical = 7"
| "rank Error = 6"
| "rank Warning = 5"
| "rank Notice = 4"
| "rank Info = 3"
| "rank Debug = 2"
| "rank Trace = 1"
| "rank Invalid = 0"

definition IsValid :: "priority \<Rightarrow> bool" where
  "IsValid p = (p \<noteq> Invalid)"

text \<open>
  Modelled from the spec: the \<open>LevelInfo\<close> type of the \<open>send\<close> package is not among the
  sources. It pairs a default and a threshold priority, and it is valid when both are
  valid priorities.
\<close>

record LevelInfo =
  Default :: priority
  Threshold :: priority

definition Valid :: "LevelInfo \<Rightarrow> bool" where
  "Valid l = (IsValid (Default l) \<and> IsValid (Threshold l))"

section \<open>Composers\<close>

text \<open>
  A Go function value of type \<open>func() T\<close> is either nil or a function; a call of a nil
  function value is a run-time panic, and so is a method call on a nil interface value.
  A function is represented by what its call does: \<open>Returns r\<close> is a function that
  returns \<open>r\<close>, and \<open>Panics\<close> is a function whose body panics (as the closure of
  \<open>NewConvertedFieldsProducer\<close> does when it wraps a nil function). The number of calls
  made is counted in the composer that holds the function (a ghost field, the last
  argument of the three lazy constructors below).
\<close>

datatype 'a func = NilFunc | Returns 'a | Panics

datatype panic = NilFunctionCall | NilDereference

fun call :: "'a func \<Rightarrow> panic + 'a" where
  "call NilFunc = Inl NilFunctionCall"
| "call (Returns r) = Inr r"
| "call Panics = Inl NilFunctionCall"

type_synonym Fields = "(string \<times> string) list"

text \<open>
  Modelled from the spec: the concrete composers that \<open>NewDefaultMessage\<close>,
  \<open>NewErrorMessage\<close>, \<open>NewFields\<close> and \<open>NewSimpleFields\<close> build are not among the
  sources; they are the first three constructors. Each holds a priority, its content and
  its annotations; a string message is loggable when its text is not empty, an error
  message when its error is not nil, a fields message when it has a field; setting a
  priority rejects an invalid value; annotating with a key that is already present is an
  error.

  The other three constructors are the lazy structs of \<open>message/function.go\<close>, field by
  field: the function, the cached composer (\<open>None\<close> is nil), the level, and the call
  counter.
\<close>

datatype composer =
    StringMessage priority string Fields
  | ErrorMessage priority "string option" Fields
  | FieldMessage priority Fields
  | FieldsProducerMessage "Fields func" "composer option" priority nat
  | ComposerProducerMessage "composer option func" "composer option" priority nat
  | ErrorProducerMessage "string option func" "composer option" priority nat

definition NewDefaultMessage :: "priority \<Rightarrow> string \<Rightarrow> composer" where
  "NewDefaultMessage p s = StringMessage p s []"

definition NewErrorMessage :: "priority \<Rightarrow> string option \<Rightarrow> composer" where
  "NewErrorMessage p e = ErrorMessage p e []"

definition NewFields :: "priority \<Rightarrow> Fields \<Rightarrow> composer" where
  "NewFields p f = FieldMessage p f"

definition NewSimpleFields :: "priority \<Rightarrow> Fields \<Rightarrow> composer" where
  "NewSimpleFields p f = FieldMessage p f"

text \<open>
  Modelled from the spec: the byte, line and formatted messages are not among the sources
  either; each is a string message of its rendered text (the arguments of a line message
  joined by spaces).
\<close>

definition NewBytesMessage :: "priority \<Rightarrow> string \<Rightarrow> composer" where
  "NewBytesMessage p b = StringMessage p b []"

fun join :: "string \<Rightarrow> string list \<Rightarrow> string" where
  "join sep [] = []"
| "join sep [x] = x"
| "join sep (x # y # ys) = x @ sep @ join sep (y # ys)"

definition NewLineMessage :: "priority \<Rightarrow> string list \<Rightarrow> composer" where
  "NewLineMessage p args = StringMessage p (join '' '' args) []"

definition NewFormattedMessage :: "priority \<Rightarrow> string \<Rightarrow> composer" where
  "NewFormattedMessage p rendered = StringMessage p rendered []"

definition NewFieldsProducerMessage :: "priority \<Rightarrow> Fields func \<Rightarrow> composer" where
  "NewFieldsProducerMessage p fp = FieldsProducerMessage fp None p 0"

definition MakeFieldsProducerMessage :: "Fields func \<Rightarrow> composer" where
  "MakeFieldsProducerMessage fp = FieldsProducerMessage fp None Invalid 0"

definition NewComposerProducerMessage :: "priority \<Rightarrow> composer option func \<Rightarrow> composer" where
  "NewComposerProducerMessage p cp = ComposerProducerMessage cp None p 0"

definition MakeComposerProducerMessage :: "composer option func \<Rightarrow> composer" where
  "MakeComposerProducerMessage cp = ComposerProducerMessage cp None Invalid 0"

definition NewErrorProducerMessage :: "priority \<Rightarrow> string option func \<Rightarrow> composer" where
  "NewErrorProducerMessage p ep = ErrorProducerMessage ep None p 0"

definition MakeErrorProducerMessage :: "string option func \<Rightarrow> composer" where
  "MakeErrorProducerMessage ep = ErrorProducerMessage ep None Invalid 0"

text \<open>
  The converted producers wrap the map function in a closure \<open>func() Fields { return mp() }\<close>:
  the closure is never nil, and calling it calls \<open>mp\<close>.
\<close>

fun closure :: "'a func \<Rightarrow> 'a func" where
  "closure NilFunc = Panics"
| "closure (Returns r) = Returns r"
| "closure Panics = Panics"


definition NewConvertedFieldsProducer :: "priority \<Rightarrow> Fields func \<Rightarrow> composer" where
  "NewConvertedFieldsProducer p mp = NewFieldsProducerMessage p (closure mp)"

text \<open>\<open>Priority()\<close>: the lazy composers return their own level, not the cached one's.\<close>

fun Priority :: "composer \<Rightarrow> priority" where
  "Priority (StringMessage p s a) = p"
| "Priority (ErrorMessage p e a) = p"
| "Priority (FieldMessage p f) = p"
| "Priority (FieldsProducerMessage fp cached l n) = l"
| "Priority (ComposerProducerMessage cp cached l n) = l"
| "Priority (ErrorProducerMessage ep cached l n) = l"

text \<open>
  \<open>SetPriority\<close> returns the error (\<open>None\<close> is nil) and the updated composer. A lazy
  composer rejects an invalid level, stores a valid one, and hands it to the cached
  composer when there is one.
\<close>

fun SetPriority :: "composer \<Rightarrow> priority \<Rightarrow> string option \<times> composer" where
  "SetPriority (StringMessage q s a) p =
     (if \<not> IsValid p then (Some ''invalid level'', StringMessage q s a)
      else (None, StringMessage p s a))"
| "SetPriority (ErrorMessage q e a) p =
     (if \<not> IsValid p then (Some ''invalid level'', ErrorMessage q e a)
      else (None, ErrorMessage p e a))"
| "SetPriority (FieldMessage q f) p =
     (if \<not> IsValid p then (Some ''invalid level'', FieldMessage q f)
      else (None, FieldMessage p f))"
| "SetPriority (FieldsProducerMessage fp cached l n) p =
     (if \<not> IsValid p then (Some ''invalid level'', FieldsProducerMessage fp cached l n)
      else (case cached of
              None \<Rightarrow> (None, FieldsProducerMessage fp None p n)
            | Some c \<Rightarrow> (case SetPriority c p of
                          (err, c') \<Rightarrow> (err, FieldsProducerMessage fp (Some c') p n))))"
| "SetPriority (ComposerProducerMessage cp cached l n) p =
     (if \<not> IsValid p then (Some ''invalid level'', ComposerProducerMessage cp cached l n)
      else (case cached of
              None \<Rightarrow> (None, ComposerProducerMessage cp None p n)
            | Some c \<Rightarrow> (case SetPriority c p of
                          (err, c') \<Rightarrow> (err, ComposerProducerMessage cp (Some c') p n))))"
| "SetPriority (ErrorProducerMessage ep cached l n) p =
     (if \<not> IsValid p then (Some ''invalid level'', ErrorProducerMessage ep cached l n)
      else (case cached of
              None \<Rightarrow> (None, ErrorProducerMessage ep None p n)
            | Some c \<Rightarrow> (case SetPriority c p of
                          (err, c') \<Rightarrow> (err, ErrorProducerMessage ep (Some c') p n))))"

text \<open>
  \<open>resolve\<close>, one method per lazy struct; it does nothing when the cached composer is
  there. Only the fields producer checks its function for nil; the other two call it as it
  is. The composer producer replaces a nil result by an empty fields message and otherwise
  sets the produced composer's priority, ignoring the error.
\<close>

fun resolve :: "composer \<Rightarrow> panic + composer" where
  "resolve (FieldsProducerMessage fp None l n) =
     (if fp = NilFunc then Inr (FieldsProducerMessage fp (Some (NewFields l [])) l n)
      else (case call fp of
              Inl e \<Rightarrow> Inl e
            | Inr r \<Rightarrow> Inr (FieldsProducerMessage fp (Some (NewFields l r)) l (Suc n))))"
| "resolve (ComposerProducerMessage cp None l n) =
     (case call cp of
        Inl e \<Rightarrow> Inl e
      | Inr None \<Rightarrow>
          Inr (ComposerProducerMessage cp (Some (NewSimpleFields l [])) l (Suc n))
      | Inr (Some c) \<Rightarrow>
          Inr (ComposerProducerMessage cp (Some (snd (SetPriority c l))) l (Suc n)))"
| "resolve (ErrorProducerMessage ep None l n) =
     (case call ep of
        Inl e \<Rightarrow> Inl e
      | Inr e \<Rightarrow> Inr (ErrorProducerMessage ep (Some (NewErrorMessage l e)) l (Suc n)))"
| "resolve m = Inr m"

text \<open>The fields of the three lazy structs, read and written by constructor.\<close>

fun cached_of :: "composer \<Rightarrow> composer option" where
  "cached_of (FieldsProducerMessage fp cached l n) = cached"
| "cached_of (ComposerProducerMessage cp cached l n) = cached"
| "cached_of (ErrorProducerMessage ep cached l n) = cached"
| "cached_of m = None"

fun set_cached :: "composer \<Rightarrow> composer \<Rightarrow> composer" where
  "set_cached (FieldsProducerMessage fp cached l n) c = FieldsProducerMessage fp (Some c) l n"
| "set_cached (ComposerProducerMessage cp cached l n) c = ComposerProducerMessage cp (Some c) l n"
| "set_cached (ErrorProducerMessage ep cached l n) c = ErrorProducerMessage ep (Some c) l n"
| "set_cached m c = m"

fun func_is_nil :: "composer \<Rightarrow> bool" where
  "func_is_nil (FieldsProducerMessage fp cached l n) = (fp = NilFunc)"
| "func_is_nil (ComposerProducerMessage cp cached l n) = (cp = NilFunc)"
| "func_is_nil (ErrorProducerMessage ep cached l n) = (ep = NilFunc)"
| "func_is_nil m = False"


fun is_lazy :: "composer \<Rightarrow> bool" where
  "is_lazy (FieldsProducerMessage fp cached l n) = True"
| "is_lazy (ComposerProducerMessage cp cached l n) = True"
| "is_lazy (ErrorProducerMessage ep cached l n) = True"
| "is_lazy m = False"

text \<open>
  A composer is settled when nothing is left to resolve: it is concrete, or it is lazy
  with a settled composer cached. Its annotations are those of the concrete composer at
  the end of the chain of cached composers.
\<close>

fun settled :: "composer \<Rightarrow> bool" where
  "settled (StringMessage p s a) = True"
| "settled (ErrorMessage p e a) = True"
| "settled (FieldMessage p f) = True"
| "settled (FieldsProducerMessage fp cached l n) =
     (case cached of None \<Rightarrow> False | Some c \<Rightarrow> settled c)"
| "settled (ComposerProducerMessage cp cached l n) =
     (case cached of None \<Rightarrow> False | Some c \<Rightarrow> settled c)"
| "settled (ErrorProducerMessage ep cached l n) =
     (case cached of None \<Rightarrow> False | Some c \<Rightarrow> settled c)"

fun annotated :: "composer \<Rightarrow> Fields" where
  "annotated (StringMessage p s a) = a"
| "annotated (ErrorMessage p e a) = a"
| "annotated (FieldMessage p f) = f"
| "annotated (FieldsProducerMessage fp cached l n) =
     (case cached of None \<Rightarrow> [] | Some c \<Rightarrow> annotated c)"
| "annotated (ComposerProducerMessage cp cached l n) =
     (case cached of None \<Rightarrow> [] | Some c \<Rightarrow> annotated c)"
| "annotated (ErrorProducerMessage ep cached l n) =
     (case cached of None \<Rightarrow> [] | Some c \<Rightarrow> annotated c)"

definition has_key :: "composer \<Rightarrow> string \<Rightarrow> bool" where
  "has_key m k = (k \<in> fst ` set (annotated m))"

text \<open>
  The composer with entries added to its annotations, at the concrete composer at the end
  of the chain of cached composers; nothing else of it changes.
\<close>

fun add_fields :: "composer \<Rightarrow> Fields \<Rightarrow> composer" where
  "add_fields (StringMessage p s a) new = StringMessage p s (a @ new)"
| "add_fields (ErrorMessage p e a) new = ErrorMessage p e (a @ new)"
| "add_fields (FieldMessage p f) new = FieldMessage p (f @ new)"
| "add_fields (FieldsProducerMessage fp cached l n) new =
     FieldsProducerMessage fp (case cached of None \<Rightarrow> None | Some c \<Rightarrow> Some (add_fields c new)) l n"
| "add_fields (ComposerProducerMessage cp cached l n) new =
     ComposerProducerMessage cp (case cached of None \<Rightarrow> None | Some c \<Rightarrow> Some (add_fields c new)) l n"
| "add_fields (ErrorProducerMessage ep cached l n) new =
     ErrorProducerMessage ep (case cached of None \<Rightarrow> None | Some c \<Rightarrow> Some (add_fields c new)) l n"

text \<open>The nesting depth of a composer: the measure the recursion of the accessors descends.\<close>

fun depth :: "composer \<Rightarrow> nat" where
  "depth (StringMessage p s a) = 0"
| "depth (ErrorMessage p e a) = 0"
| "depth (FieldMessage p f) = 0"
| "depth (FieldsProducerMessage fp cached l n) =
     Suc (case cached of None \<Rightarrow> 0 | Some c \<Rightarrow> depth c)"
| "depth (ComposerProducerMessage cp cached l n) =
     Suc (max (case cp of Returns (Some c) \<Rightarrow> depth c | _ \<Rightarrow> 0)
              (case cached of None \<Rightarrow> 0 | Some c \<Rightarrow> depth c))"
| "depth (ErrorProducerMessage ep cached l n) =
     Suc (case cached of None \<Rightarrow> 0 | Some c \<Rightarrow> depth c)"

lemma depth_SetPriority: "depth (snd (SetPriority m p)) = depth m"
  by (induction m p rule: SetPriority.induct) (auto split: option.splits prod.splits)

lemma depth_resolve:
  assumes "resolve m = Inr m'" and "cached_of m' = Some c"
  shows "depth c < depth m"
  using assms
  by (cases m rule: resolve.cases)
     (auto simp: NewFields_def NewSimpleFields_def NewErrorMessage_def depth_SetPriority
           split: func.splits option.splits if_splits sum.splits)

text \<open>Modelled from the spec: the string form of a fields message, one \<open>key=value\<close> per field.\<close>

definition render :: "Fields \<Rightarrow> string" where
  "render f = concat (map (\<lambda>(k, v). k @ ''='' @ v @ '' '') f)"

text \<open>
  Modelled from the spec: annotating a concrete composer. A key that is already there is
  an error and nothing is overwritten; a new key is added with its value.
\<close>

definition already_exists :: "string \<Rightarrow> string" where
  "already_exists k = ''key '' @ k @ '' already exists''"

definition annotate_fields :: "Fields \<Rightarrow> string \<Rightarrow> string \<Rightarrow> string option \<times> Fields" where
  "annotate_fields f k v =
     (if k \<in> fst ` set f then (Some (already_exists k), f)
      else (None, f @ [(k, v)]))"

text \<open>
  The four accessors. On a lazy composer each one resolves and then asks the cached
  composer; \<open>Loggable\<close> first returns false when the function is nil. A method call on a
  nil cached composer would panic; \<open>resolve\<close> never leaves it nil.
\<close>

function (sequential) Loggable :: "composer \<Rightarrow> panic + bool \<times> composer" where
  "Loggable (StringMessage p s a) = Inr (s \<noteq> [], StringMessage p s a)"
| "Loggable (ErrorMessage p e a) = Inr (e \<noteq> None, ErrorMessage p e a)"
| "Loggable (FieldMessage p f) = Inr (f \<noteq> [], FieldMessage p f)"
| "Loggable m =
     (if func_is_nil m then Inr (False, m)
      else (case resolve m of
              Inl e \<Rightarrow> Inl e
            | Inr m' \<Rightarrow> (case cached_of m' of
                           None \<Rightarrow> Inl NilDereference
                         | Some c \<Rightarrow> (case Loggable c of
                                       Inl e \<Rightarrow> Inl e
                                     | Inr (b, c') \<Rightarrow> Inr (b, set_cached m' c')))))"
  by pat_completeness auto
termination
  by (relation "measure depth") (auto dest: depth_resolve)

function (sequential) String :: "composer \<Rightarrow> panic + string \<times> composer" where
  "String (StringMessage p s a) = Inr (s, StringMessage p s a)"
| "String (ErrorMessage p e a) =
     Inr (case e of None \<Rightarrow> [] | Some x \<Rightarrow> x, ErrorMessage p e a)"
| "String (FieldMessage p f) = Inr (render f, FieldMessage p f)"
| "String m =
     (case resolve m of
        Inl e \<Rightarrow> Inl e
      | Inr m' \<Rightarrow> (case cached_of m' of
                     None \<Rightarrow> Inl NilDereference
                   | Some c \<Rightarrow> (case String c of
                                 Inl e \<Rightarrow> Inl e
                               | Inr (s, c') \<Rightarrow> Inr (s, set_cached m' c'))))"
  by pat_completeness auto
termination
  by (relation "measure depth") (auto dest: depth_resolve)

function (sequential) Raw :: "composer \<Rightarrow> panic + Fields \<times> composer" where
  "Raw (StringMessage p s a) = Inr ((''message'', s) # a, StringMessage p s a)"
| "Raw (ErrorMessage p e a) =
     Inr ((''error'', case e of None \<Rightarrow> [] | Some x \<Rightarrow> x) # a, ErrorMessage p e a)"
| "Raw (FieldMessage p f) = Inr (f, FieldMessage p f)"
| "Raw m =
     (case resolve m of
        Inl e \<Rightarrow> Inl e
      | Inr m' \<Rightarrow> (case cached_of m' of
                     None \<Rightarrow> Inl NilDereference
                   | Some c \<Rightarrow> (case Raw c of
                                 Inl e \<Rightarrow> Inl e
                               | Inr (r, c') \<Rightarrow> Inr (r, set_cached m' c'))))"
  by pat_completeness auto
termination
  by (relation "measure depth") (auto dest: depth_resolve)

function (sequential) Annotate ::
  "composer \<Rightarrow> string \<Rightarrow> string \<Rightarrow> panic + string option \<times> composer" where
  "Annotate (StringMessage p s a) k v =
     (case annotate_fields a k v of (err, a') \<Rightarrow> Inr (err, StringMessage p s a'))"
| "Annotate (ErrorMessage p e a) k v =
     (case annotate_fields a k v of (err, a') \<Rightarrow> Inr (err, ErrorMessage p e a'))"
| "Annotate (FieldMessage p f) k v =
     (case annotate_fields f k v of (err, f') \<Rightarrow> Inr (err, FieldMessage p f'))"
| "Annotate m k v =
     (case resolve m of
        Inl e \<Rightarrow> Inl e
      | Inr m' \<Rightarrow> (case cached_of m' of
                     None \<Rightarrow> Inl NilDereference
                   | Some c \<Rightarrow> (case Annotate c k v of
                                 Inl e \<Rightarrow> Inl e
                               | Inr (err, c') \<Rightarrow> Inr (err, set_cached m' c'))))"
  by pat_completeness auto
termination
  by (relation "measure (\<lambda>(m, k, v). depth m)") (auto dest: depth_resolve)




















section \<open>Message conversion\<close>

text \<open>
  The values \<open>convert\<close> switches on, by dynamic type. A named function type and its
  unnamed twin (\<open>FieldsProducer\<close> and \<open>func() Fields\<close>, and so on) take the same branch,
  as do \<open>Fields\<close> and \<open>map[string]interface{}\<close>; a value of no listed type is given by
  its \<open>%+v\<close> rendering. The slice shapes, which build a group composer, are left out:
  the group composer is not among the sources.
\<close>

datatype input =
    InComposer composer
  | InString string
  | InError string
  | InFieldsProducer "Fields func"
  | InComposerProducer "composer option func"
  | InMapProducer "Fields func"
  | InErrorProducer "string option func"
  | InBytes string
  | InFields Fields
  | InNil
  | InOther string

fun convert :: "priority \<Rightarrow> input \<Rightarrow> bool \<Rightarrow> composer" where
  "convert p (InComposer message) overRideLevel =
     (if overRideLevel \<or> Priority message \<noteq> Invalid then snd (SetPriority message p)
      else message)"
| "convert p (InString message) overRideLevel = NewDefaultMessage p message"
| "convert p (InError message) overRideLevel = NewErrorMessage p (Some message)"
| "convert p (InFieldsProducer message) overRideLevel = NewFieldsProducerMessage p message"
| "convert p (InComposerProducer message) overRideLevel =
     NewComposerProducerMessage p message"
| "convert p (InMapProducer message) overRideLevel = NewConvertedFieldsProducer p message"
| "convert p (InErrorProducer message) overRideLevel = NewErrorProducerMessage p message"
| "convert p (InBytes message) overRideLevel = NewBytesMessage p message"
| "convert p (InFields message) overRideLevel = NewFields p message"
| "convert p InNil overRideLevel = NewLineMessage p []"
| "convert p (InOther message) overRideLevel = NewFormattedMessage p message"

definition ConvertToComposer :: "priority \<Rightarrow> input \<Rightarrow> composer" where
  "ConvertToComposer p message = convert p message True"

definition ConvertToComposerWithLevel :: "priority \<Rightarrow> input \<Rightarrow> composer" where
  "ConvertToComposerWithLevel p message = convert p message False"

section \<open>Level policy\<close>

text \<open>
  Modelled from the spec: \<open>LevelInfo.ShouldLog\<close> is not among the sources (only its
  callers are). The spec's decision: the effective priority is the composer's, or the
  sender's Default when that is Invalid; a message that reports not-loggable is rejected;
  Emergency is above any threshold; an effective priority below the Threshold is rejected;
  anything else is accepted. \<open>Loggable\<close> may resolve the composer, so the composer is
  returned with the decision.
\<close>

definition effective :: "LevelInfo \<Rightarrow> composer \<Rightarrow> priority" where
  "effective l m = (if Priority m = Invalid then Default l else Priority m)"

definition ShouldLog :: "LevelInfo \<Rightarrow> composer \<Rightarrow> panic + bool \<times> composer" where
  "ShouldLog l m =
     (case Loggable m of
        Inl e \<Rightarrow> Inl e
      | Inr (loggable, m') \<Rightarrow>
          Inr (if \<not> loggable then False
               else if effective l m = Emergency then True
               else if rank (effective l m) < rank (Threshold l) then False
               else True, m'))"

section \<open>Senders\<close>

text \<open>
  Senders are objects shared by reference: a sender is an address, and the world maps
  addresses to sender states. The world also keeps the trace of what has happened, in
  order: the operations on the logger's lock, the hand-off of a composer to a sender's
  \<open>Send\<close>, the calls of an error handler, the closing of a sender, the assignment of the
  logger's sender field, and a \<open>panic\<close> or \<open>os.Exit\<close>.
\<close>

type_synonym addr = nat

text \<open>
  Modelled from the spec: the \<open>Sender\<close> interface and its base implementation are not
  among the sources. A sender has a name, a LevelInfo, and a \<open>Close\<close> whose result is the
  backend's; \<open>SetLevel\<close> rejects an invalid LevelInfo and stores a valid one; \<open>SetName\<close>
  stores the name; what a backend does with a composer handed to \<open>Send\<close> is its own, and
  the trace records the hand-off; the error handler is called with an error and the
  composer, and the trace records the call.
\<close>

record sender =
  sender_name :: string
  sender_level :: LevelInfo
  close_result :: "string option"
  close_count :: nat

datatype event =
    Locked | Unlocked | RLocked | RUnlocked
  | Sent addr composer
  | Handled addr string composer
  | Closed addr
  | Assigned addr
  | PanicRaised string
  | ProcessExit nat

record world =
  senders :: "addr \<Rightarrow> sender"
  events :: "event list"

definition emit :: "event \<Rightarrow> world \<Rightarrow> world" where
  "emit e w = w\<lparr>events := events w @ [e]\<rparr>"

definition sender_Name :: "addr \<Rightarrow> world \<Rightarrow> string" where
  "sender_Name a w = sender_name (senders w a)"

definition sender_Level :: "addr \<Rightarrow> world \<Rightarrow> LevelInfo" where
  "sender_Level a w = sender_level (senders w a)"

definition sender_SetName :: "addr \<Rightarrow> string \<Rightarrow> world \<Rightarrow> world" where
  "sender_SetName a n w = w\<lparr>senders := (senders w)(a := (senders w a)\<lparr>sender_name := n\<rparr>)\<rparr>"

definition sender_SetLevel :: "addr \<Rightarrow> LevelInfo \<Rightarrow> world \<Rightarrow> string option \<times> world" where
  "sender_SetLevel a l w =
     (if \<not> Valid l then (Some ''level settings are not valid'', w)
      else (None, w\<lparr>senders := (senders w)(a := (senders w a)\<lparr>sender_level := l\<rparr>)\<rparr>))"

definition sender_Close :: "addr \<Rightarrow> world \<Rightarrow> string option \<times> world" where
  "sender_Close a w =
     (close_result (senders w a),
      emit (Closed a)
        (w\<lparr>senders :=
             (senders w)(a := (senders w a)\<lparr>close_count := Suc (close_count (senders w a))\<rparr>)\<rparr>))"

definition sender_Send :: "addr \<Rightarrow> composer \<Rightarrow> world \<Rightarrow> world" where
  "sender_Send a m w = emit (Sent a m) w"

definition ErrorHandler :: "addr \<Rightarrow> string \<Rightarrow> composer \<Rightarrow> world \<Rightarrow> world" where
  "ErrorHandler a err m w = emit (Handled a err m) w"

subsection \<open>The annotating sender\<close>

text \<open>
  \<open>annotatingSender\<close> embeds its inner sender, so \<open>Level\<close> and \<open>ErrorHandler\<close> are the
  inner sender's. A Go map has distinct keys and no fixed iteration order: the
  annotations are the list of its entries in the order one \<open>range\<close> visits them.
\<close>

record annotatingSender =
  Sender :: addr
  annotations :: Fields

text \<open>The loop of \<open>Send\<close>: every entry is tried, and the errors are collected.\<close>

definition separator :: string where
  "separator = '';'' @ [CHR 0x0A]"

fun annotate_all :: "Fields \<Rightarrow> composer \<Rightarrow> string list \<Rightarrow> panic + string list \<times> composer" where
  "annotate_all [] m errs = Inr (errs, m)"
| "annotate_all ((k, v) # kvs) m errs =
     (case Annotate m k v of
        Inl e \<Rightarrow> Inl e
      | Inr (None, m') \<Rightarrow> annotate_all kvs m' errs
      | Inr (Some err, m') \<Rightarrow> annotate_all kvs m' (errs @ [err]))"

text \<open>
  The result of a call that may abort: it returns, it panics on purpose, it exits the
  process, or it dies of a run-time panic. The world is the one at that moment.
\<close>

datatype outcome = Returned | Panicked string | Exited nat | Crashed panic

definition annotating_Send :: "annotatingSender \<Rightarrow> composer \<Rightarrow> world \<Rightarrow> outcome \<times> world" where
  "annotating_Send s m w =
     (case ShouldLog (sender_Level (Sender s) w) m of
        Inl e \<Rightarrow> (Crashed e, w)
      | Inr (False, m1) \<Rightarrow> (Returned, w)
      | Inr (True, m1) \<Rightarrow>
          (case annotate_all (annotations s) m1 [] of
             Inl e \<Rightarrow> (Crashed e, w)
           | Inr (errs, m2) \<Rightarrow>
               (let w1 = (if length errs > 0
                          then ErrorHandler (Sender s) (join separator errs) m2 w
                          else w)
                in (Returned, sender_Send (Sender s) m2 w1))))"

section \<open>The logger\<close>

text \<open>
  \<open>Grip\<close> holds its sender by reference and a default level; its lock \<open>mu\<close> shows in the
  trace. A deferred unlock runs when the method returns and when it panics, and does not
  run when the process exits.
\<close>

record Grip =
  impl :: addr
  defaultLevel :: priority

definition MakeGrip :: "addr \<Rightarrow> Grip" where
  "MakeGrip s = \<lparr>impl = s, defaultLevel = Info\<rparr>"





definition SetSender :: "Grip \<Rightarrow> addr option \<Rightarrow> world \<Rightarrow> string option \<times> Grip \<times> world" where
  "SetSender g s w =
     (case s of
        None \<Rightarrow> (Some ''cannot set the sender to nil'', g, w)
      | Some a \<Rightarrow>
          (let w1 = emit Locked w
           in (case sender_SetLevel a (sender_Level (impl g) w1) w1 of
                 (Some err, w2) \<Rightarrow> (Some err, g, emit Unlocked w2)
               | (None, w2) \<Rightarrow>
                   (case sender_Close (impl g) w2 of
                      (Some err, w3) \<Rightarrow> (Some err, g, emit Unlocked w3)
                    | (None, w3) \<Rightarrow>
                        (let w4 = sender_SetName a (sender_Name (impl g) w3) w3;
                             w5 = emit (Assigned a) w4
                         in (None, g\<lparr>impl := a\<rparr>, emit Unlocked w5))))))"


definition sendPanic :: "Grip \<Rightarrow> composer \<Rightarrow> world \<Rightarrow> outcome \<times> world" where
  "sendPanic g m w =
     (let w1 = emit RLocked w
      in (case ShouldLog (sender_Level (impl g) w1) m of
            Inl e \<Rightarrow> (Crashed e, emit RUnlocked w1)
          | Inr (False, m1) \<Rightarrow> (Returned, emit RUnlocked w1)
          | Inr (True, m1) \<Rightarrow>
              (let w2 = sender_Send (impl g) m1 w1
               in (case String m1 of
                     Inl e \<Rightarrow> (Crashed e, emit RUnlocked w2)
                   | Inr (str, m2) \<Rightarrow>
                       (Panicked str, emit RUnlocked (emit (PanicRaised str) w2))))))"

definition sendFatal :: "Grip \<Rightarrow> composer \<Rightarrow> world \<Rightarrow> outcome \<times> world" where
  "sendFatal g m w =
     (let w1 = emit RLocked w
      in (case ShouldLog (sender_Level (impl g) w1) m of
            Inl e \<Rightarrow> (Crashed e, emit RUnlocked w1)
          | Inr (False, m1) \<Rightarrow> (Returned, emit RUnlocked w1)
          | Inr (True, m1) \<Rightarrow>
              (let w2 = sender_Send (impl g) m1 w1
               in (Exited 1, emit (ProcessExit 1) w2))))"

definition send :: "Grip \<Rightarrow> composer \<Rightarrow> world \<Rightarrow> world" where
  "send g m w =
     (let w1 = emit RLocked w;
          w2 = sender_Send (impl g) m w1
      in emit RUnlocked w2)"

definition EmergencyPanic :: "Grip \<Rightarrow> input \<Rightarrow> world \<Rightarrow> outcome \<times> world" where
  "EmergencyPanic g msg w = sendPanic g (ConvertToComposer Emergency msg) w"

definition EmergencyFatal :: "Grip \<Rightarrow> input \<Rightarrow> world \<Rightarrow> outcome \<times> world" where
  "EmergencyFatal g msg w = sendFatal g (ConvertToComposer Emergency msg) w"

subsection \<open>The lock under interleaving\<close>









section \<open>Lazy resolution and the calls of the function\<close>










































section \<open>A nil function\<close>

text \<open>
  C4. A lazy composer built on a nil function reports not-loggable, in all three variants.
  String, Raw and Annotate resolve the fields producer to an empty fields message; on the
  composer producer and on the error producer they call the nil function, which panics.
\<close>

theorem nil_function_accessors:
  "Loggable (NewErrorProducerMessage p NilFunc) = Inr (False, NewErrorProducerMessage p NilFunc)
   \<and> String (NewErrorProducerMessage p NilFunc) = Inl NilFunctionCall
   \<and> Raw (NewErrorProducerMessage p NilFunc) = Inl NilFunctionCall
   \<and> Annotate (NewErrorProducerMessage p NilFunc) k v = Inl NilFunctionCall
   \<and> Loggable (NewComposerProducerMessage p NilFunc)
       = Inr (False, NewComposerProducerMessage p NilFunc)
   \<and> String (NewComposerProducerMessage p NilFunc) = Inl NilFunctionCall
   \<and> Raw (NewComposerProducerMessage p NilFunc) = Inl NilFunctionCall
   \<and> Annotate (NewComposerProducerMessage p NilFunc) k v = Inl NilFunctionCall
   \<and> Loggable (NewFieldsProducerMessage p NilFunc)
       = Inr (False, NewFieldsProducerMessage p NilFunc)
   \<and> String (NewFieldsProducerMessage p NilFunc)
       = Inr ([], FieldsProducerMessage NilFunc (Some (NewFields p [])) p 0)
   \<and> Raw (NewFieldsProducerMessage p NilFunc)
       = Inr ([], FieldsProducerMessage NilFunc (Some (NewFields p [])) p 0)
   \<and> Annotate (NewFieldsProducerMessage p NilFunc) k v
       = Inr (None, FieldsProducerMessage NilFunc (Some (NewFields p [(k, v)])) p 0)"
  by (simp add: NewErrorProducerMessage_def NewComposerProducerMessage_def
      NewFieldsProducerMessage_def NewFields_def render_def annotate_fields_def
      already_exists_def)

theorem nil_function_accessors_witness:
  "Loggable (NewErrorProducerMessage Info NilFunc)
       = Inr (False, NewErrorProducerMessage Info NilFunc)
   \<and> String (NewErrorProducerMessage Info NilFunc) = Inl NilFunctionCall
   \<and> String (NewComposerProducerMessage Info NilFunc) = Inl NilFunctionCall
   \<and> String (NewFieldsProducerMessage Info NilFunc)
       = Inr ([], FieldsProducerMessage NilFunc (Some (NewFields Info [])) Info 0)"
  using nil_function_accessors [of Info "''k''" "''v''"] by blast

section \<open>The priority of the cached composer\<close>

lemma SetPriority_valid: "IsValid p \<Longrightarrow> Priority (snd (SetPriority m p)) = p"
  by (cases m) (auto split: option.splits prod.splits)

lemma SetPriority_invalid: "\<not> IsValid p \<Longrightarrow> SetPriority m p = (Some ''invalid level'', m)"
  by (cases m) auto

lemma Priority_SetPriority:
  "Priority (snd (SetPriority m p)) = (if IsValid p then p else Priority m)"
  by (simp add: SetPriority_valid SetPriority_invalid)

text \<open>
  C10, as the code has it. Resolution leaves the wrapper's priority as it was. The fields
  producer and the error producer build their cached composer at the wrapper's level,
  and so does the composer producer when its function returns nil. When its function
  returns a composer, the composer producer sets that composer's priority to its own
  level only if this level is valid; with an Invalid level of its own (as
  \<open>MakeComposerProducerMessage\<close> leaves it) the produced composer is cached as it is.
\<close>

theorem resolve_cached_priority:
  "(resolve (FieldsProducerMessage fp None l n) = Inr m'
      \<longrightarrow> map_option Priority (cached_of m') = Some l \<and> Priority m' = l)
   \<and> (resolve (ErrorProducerMessage ep None l n) = Inr m'
      \<longrightarrow> map_option Priority (cached_of m') = Some l \<and> Priority m' = l)
   \<and> (IsValid l \<and> resolve (ComposerProducerMessage cp None l n) = Inr m'
      \<longrightarrow> map_option Priority (cached_of m') = Some l \<and> Priority m' = l)
   \<and> (resolve (ComposerProducerMessage (Returns None) None l n) = Inr m'
      \<longrightarrow> map_option Priority (cached_of m') = Some l \<and> Priority m' = l)
   \<and> (\<not> IsValid l \<and> resolve (ComposerProducerMessage (Returns (Some c)) None l n) = Inr m'
      \<longrightarrow> cached_of m' = Some c \<and> Priority m' = l)"
  by (auto simp: NewFields_def NewSimpleFields_def NewErrorMessage_def SetPriority_valid
      SetPriority_invalid split: if_splits sum.splits option.splits)

theorem resolve_cached_priority_witness:
  "resolve (FieldsProducerMessage (Returns [(''a'', ''1'')]) None Invalid 0)
     = Inr (FieldsProducerMessage (Returns [(''a'', ''1'')])
             (Some (FieldMessage Invalid [(''a'', ''1'')])) Invalid 1)
   \<and> map_option Priority (cached_of (FieldsProducerMessage (Returns [(''a'', ''1'')])
             (Some (FieldMessage Invalid [(''a'', ''1'')])) Invalid 1)) = Some Invalid
   \<and> resolve (ErrorProducerMessage (Returns (Some ''boom'')) None Warning 0)
     = Inr (ErrorProducerMessage (Returns (Some ''boom''))
             (Some (ErrorMessage Warning (Some ''boom'') [])) Warning 1)
   \<and> map_option Priority (cached_of (ErrorProducerMessage (Returns (Some ''boom''))
             (Some (ErrorMessage Warning (Some ''boom'') [])) Warning 1)) = Some Warning
   \<and> IsValid Notice
   \<and> resolve (ComposerProducerMessage (Returns (Some (StringMessage Debug ''x'' []))) None Notice 0)
     = Inr (ComposerProducerMessage (Returns (Some (StringMessage Debug ''x'' [])))
             (Some (StringMessage Notice ''x'' [])) Notice 1)
   \<and> map_option Priority (cached_of (ComposerProducerMessage
             (Returns (Some (StringMessage Debug ''x'' [])))
             (Some (StringMessage Notice ''x'' [])) Notice 1)) = Some Notice
   \<and> resolve (ComposerProducerMessage (Returns None) None Invalid 0)
     = Inr (ComposerProducerMessage (Returns None) (Some (FieldMessage Invalid [])) Invalid 1)
   \<and> map_option Priority (cached_of (ComposerProducerMessage (Returns None)
             (Some (FieldMessage Invalid [])) Invalid 1)) = Some Invalid
   \<and> \<not> IsValid Invalid
   \<and> resolve (ComposerProducerMessage (Returns (Some (StringMessage Debug ''x'' []))) None Invalid 0)
     = Inr (ComposerProducerMessage (Returns (Some (StringMessage Debug ''x'' [])))
             (Some (StringMessage Debug ''x'' [])) Invalid 1)
   \<and> cached_of (ComposerProducerMessage (Returns (Some (StringMessage Debug ''x'' [])))
             (Some (StringMessage Debug ''x'' [])) Invalid 1)
     = Some (StringMessage Debug ''x'' [])"
proof -
  let ?f = "FieldsProducerMessage (Returns [(''a'', ''1'')]) None Invalid 0"
  let ?f' = "FieldsProducerMessage (Returns [(''a'', ''1'')])
             (Some (FieldMessage Invalid [(''a'', ''1'')])) Invalid 1"
  let ?e = "ErrorProducerMessage (Returns (Some ''boom'')) None Warning 0"
  let ?e' = "ErrorProducerMessage (Returns (Some ''boom''))
             (Some (ErrorMessage Warning (Some ''boom'') [])) Warning 1"
  let ?c = "ComposerProducerMessage (Returns (Some (StringMessage Debug ''x'' []))) None Notice 0"
  let ?c' = "ComposerProducerMessage (Returns (Some (StringMessage Debug ''x'' [])))
             (Some (StringMessage Notice ''x'' [])) Notice 1"
  let ?n = "ComposerProducerMessage (Returns None) None Invalid 0"
  let ?n' = "ComposerProducerMessage (Returns None) (Some (FieldMessage Invalid [])) Invalid 1"
  let ?i = "ComposerProducerMessage (Returns (Some (StringMessage Debug ''x'' []))) None Invalid 0"
  let ?i' = "ComposerProducerMessage (Returns (Some (StringMessage Debug ''x'' [])))
             (Some (StringMessage Debug ''x'' [])) Invalid 1"
  have rf: "resolve ?f = Inr ?f'" by (simp add: NewFields_def)
  have re: "resolve ?e = Inr ?e'" by (simp add: NewErrorMessage_def)
  have v: "IsValid Notice" by (simp add: IsValid_def)
  have rc: "resolve ?c = Inr ?c'" by (simp add: IsValid_def)
  have rn: "resolve ?n = Inr ?n'" by (simp add: NewSimpleFields_def)
  have iv: "\<not> IsValid Invalid" by (simp add: IsValid_def)
  have ri: "resolve ?i = Inr ?i'" by (simp add: IsValid_def)
  from resolve_cached_priority [of "Returns [(''a'', ''1'')]" Invalid 0 ?f'] rf
  have pf: "map_option Priority (cached_of ?f') = Some Invalid" by blast
  from resolve_cached_priority [of _ Warning 0 ?e' "Returns (Some ''boom'')"] re
  have pe: "map_option Priority (cached_of ?e') = Some Warning" by blast
  from resolve_cached_priority
    [of _ Notice 0 ?c' _ "Returns (Some (StringMessage Debug ''x'' []))"] v rc
  have pc: "map_option Priority (cached_of ?c') = Some Notice" by blast
  from resolve_cached_priority [of _ Invalid 0 ?n'] rn
  have pn: "map_option Priority (cached_of ?n') = Some Invalid" by blast
  from resolve_cached_priority [of _ Invalid 0 ?i' _ _ "StringMessage Debug ''x'' []"] iv ri
  have pi: "cached_of ?i' = Some (StringMessage Debug ''x'' [])" by blast
  from rf pf re pe v rc pc rn pn iv ri pi show ?thesis by blast
qed

theorem resolve_cached_priority_counterexample:
  "resolve (MakeComposerProducerMessage
             (Returns (Some (NewFieldsProducerMessage Info (Returns [(''a'', ''1'')])))))
     = Inr (ComposerProducerMessage
             (Returns (Some (FieldsProducerMessage (Returns [(''a'', ''1'')]) None Info 0)))
             (Some (FieldsProducerMessage (Returns [(''a'', ''1'')]) None Info 0)) Invalid 1)
   \<and> Priority (FieldsProducerMessage (Returns [(''a'', ''1'')]) None Info 0) = Info
   \<and> Priority (ComposerProducerMessage
             (Returns (Some (FieldsProducerMessage (Returns [(''a'', ''1'')]) None Info 0)))
             (Some (FieldsProducerMessage (Returns [(''a'', ''1'')]) None Info 0)) Invalid 1)
       = Invalid"
  by (simp add: MakeComposerProducerMessage_def NewFieldsProducerMessage_def IsValid_def)

section \<open>Conversion of a composer\<close>

text \<open>
  C3, as the code has it. \<open>ConvertToComposerWithLevel\<close> sets the priority of a composer
  only when the composer's current priority is not Invalid (and the given priority is
  valid); a composer whose priority is Invalid is returned as it is.
  \<open>ConvertToComposer\<close> sets the priority whenever the given priority is valid.
\<close>

theorem convert_composer_priority:
  "Priority (ConvertToComposerWithLevel p (InComposer m))
     = (if Priority m \<noteq> Invalid \<and> IsValid p then p else Priority m)
   \<and> (Priority m = Invalid \<longrightarrow> ConvertToComposerWithLevel p (InComposer m) = m)
   \<and> Priority (ConvertToComposer p (InComposer m)) = (if IsValid p then p else Priority m)"
  by (simp add: ConvertToComposerWithLevel_def ConvertToComposer_def Priority_SetPriority)

theorem convert_composer_priority_witness:
  "Priority (MakeErrorProducerMessage (Returns None)) = Invalid
   \<and> ConvertToComposerWithLevel Error (InComposer (MakeErrorProducerMessage (Returns None)))
       = MakeErrorProducerMessage (Returns None)
   \<and> Priority (ConvertToComposerWithLevel Error
         (InComposer (NewErrorProducerMessage Debug (Returns None)))) = Error
   \<and> Priority (ConvertToComposer Error (InComposer (MakeErrorProducerMessage (Returns None))))
       = Error"
proof -
  let ?m = "MakeErrorProducerMessage (Returns None)"
  let ?d = "NewErrorProducerMessage Debug (Returns None)"
  have i: "Priority ?m = Invalid"
    by (simp add: MakeErrorProducerMessage_def)
  have d: "Priority ?d = Debug"
    by (simp add: NewErrorProducerMessage_def)
  have v: "IsValid Error"
    by (simp add: IsValid_def)
  from convert_composer_priority [of Error ?m] i
  have a: "ConvertToComposerWithLevel Error (InComposer ?m) = ?m" by blast
  from convert_composer_priority [of Error ?d] d v
  have b: "Priority (ConvertToComposerWithLevel Error (InComposer ?d)) = Error" by simp
  from convert_composer_priority [of Error ?m] v
  have c: "Priority (ConvertToComposer Error (InComposer ?m)) = Error" by simp
  from i a b c show ?thesis by blast
qed

theorem convert_composer_priority_counterexample:
  "Priority (NewFieldsProducerMessage Info NilFunc) = Info
   \<and> Priority (ConvertToComposerWithLevel Error (InComposer (NewFieldsProducerMessage Info NilFunc)))
       = Error
   \<and> Priority (MakeFieldsProducerMessage NilFunc) = Invalid
   \<and> Priority (ConvertToComposerWithLevel Error (InComposer (MakeFieldsProducerMessage NilFunc)))
       = Invalid
   \<and> Priority (ConvertToComposer Invalid (InComposer (NewFieldsProducerMessage Info NilFunc)))
       = Info"
  by (simp add: ConvertToComposerWithLevel_def ConvertToComposer_def
      NewFieldsProducerMessage_def MakeFieldsProducerMessage_def IsValid_def)

section \<open>The threshold\<close>

text \<open>
  C1. For a loggable message whose effective priority (its own, or the sender's Default
  when its own is Invalid) is below the Threshold and is not Emergency, ShouldLog returns
  false; for a loggable message whose effective priority is Emergency it returns true,
  whatever the threshold; for a message that reports not-loggable it returns false.
\<close>

theorem ShouldLog_threshold:
  "(Loggable m = Inr (True, m') \<and> effective l m \<noteq> Emergency
      \<and> rank (effective l m) < rank (Threshold l) \<longrightarrow> ShouldLog l m = Inr (False, m'))
   \<and> (Loggable m = Inr (True, m') \<and> effective l m = Emergency
      \<longrightarrow> ShouldLog l m = Inr (True, m'))
   \<and> (Loggable m = Inr (False, m') \<longrightarrow> ShouldLog l m = Inr (False, m'))
   \<and> effective l m = (if Priority m = Invalid then Default l else Priority m)"
  by (simp add: ShouldLog_def effective_def)

theorem ShouldLog_threshold_witness:
  "Loggable (NewDefaultMessage Invalid ''x'') = Inr (True, NewDefaultMessage Invalid ''x'')
   \<and> effective \<lparr>Default = Debug, Threshold = Info\<rparr> (NewDefaultMessage Invalid ''x'') = Debug
   \<and> rank Debug < rank Info
   \<and> ShouldLog \<lparr>Default = Debug, Threshold = Info\<rparr> (NewDefaultMessage Invalid ''x'')
       = Inr (False, NewDefaultMessage Invalid ''x'')
   \<and> Loggable (NewDefaultMessage Emergency ''x'') = Inr (True, NewDefaultMessage Emergency ''x'')
   \<and> ShouldLog \<lparr>Default = Debug, Threshold = Emergency\<rparr> (NewDefaultMessage Emergency ''x'')
       = Inr (True, NewDefaultMessage Emergency ''x'')
   \<and> Loggable (NewDefaultMessage Alert []) = Inr (False, NewDefaultMessage Alert [])
   \<and> ShouldLog \<lparr>Default = Debug, Threshold = Info\<rparr> (NewDefaultMessage Alert [])
       = Inr (False, NewDefaultMessage Alert [])"
proof -
  let ?l = "\<lparr>Default = Debug, Threshold = Info\<rparr>"
  let ?t = "\<lparr>Default = Debug, Threshold = Emergency\<rparr>"
  let ?x = "NewDefaultMessage Invalid ''x''"
  let ?e = "NewDefaultMessage Emergency ''x''"
  let ?n = "NewDefaultMessage Alert []"
  have lx: "Loggable ?x = Inr (True, ?x)" by (simp add: NewDefaultMessage_def)
  have ex: "effective ?l ?x = Debug" by (simp add: effective_def NewDefaultMessage_def)
  have rk: "rank Debug < rank Info" by simp
  have le: "Loggable ?e = Inr (True, ?e)" by (simp add: NewDefaultMessage_def)
  have ee: "effective ?t ?e = Emergency" by (simp add: effective_def NewDefaultMessage_def)
  have ln: "Loggable ?n = Inr (False, ?n)" by (simp add: NewDefaultMessage_def)
  from ShouldLog_threshold [of ?x ?x ?l] lx ex rk
  have a: "ShouldLog ?l ?x = Inr (False, ?x)" by simp
  from ShouldLog_threshold [of ?e ?e ?t] le ee
  have b: "ShouldLog ?t ?e = Inr (True, ?e)" by blast
  from ShouldLog_threshold [of ?n ?n ?l] ln
  have c: "ShouldLog ?l ?n = Inr (False, ?n)" by blast
  from lx ex rk a le b ln c show ?thesis by blast
qed

section \<open>Settled composers\<close>

text \<open>
  A composer that has reported loggable is settled, and on a settled composer String and
  Annotate do not panic: Annotate fails exactly on a key that is already there, and adds
  any other key with its value.
\<close>

lemma settled_set_cached: "is_lazy m \<Longrightarrow> settled (set_cached m c) = settled c"
  by (cases m) auto

lemma annotated_set_cached: "is_lazy m \<Longrightarrow> annotated (set_cached m c) = annotated c"
  by (cases m) auto

lemma resolve_settled: "settled m \<Longrightarrow> resolve m = Inr m"
  by (cases m rule: resolve.cases) auto



lemma resolve_lazy: "resolve m = Inr m' \<Longrightarrow> is_lazy m' = is_lazy m"
  by (cases m rule: resolve.cases) (auto split: if_splits sum.splits option.splits)

lemma Loggable_settled: "Loggable m = Inr (True, m1) \<Longrightarrow> settled m1"
  by (induction m arbitrary: m1 rule: Loggable.induct)
     (auto split: if_splits sum.splits option.splits prod.splits simp: settled_set_cached dest: resolve_lazy)


lemma settled_lazy: "settled m \<Longrightarrow> is_lazy m \<Longrightarrow> \<exists>c. cached_of m = Some c \<and> settled c"
  by (cases m) (auto split: option.splits)

lemma annotated_lazy: "is_lazy m \<Longrightarrow> cached_of m = Some c \<Longrightarrow> annotated m = annotated c"
  by (cases m) auto

lemma depth_cached: "cached_of m = Some c \<Longrightarrow> depth c < depth m"
  by (cases m) auto

lemma String_cached:
  "is_lazy m \<Longrightarrow> cached_of m = Some c \<Longrightarrow>
   String m = (case String c of Inl e \<Rightarrow> Inl e | Inr (s, c') \<Rightarrow> Inr (s, set_cached m c'))"
  by (cases m) auto

lemma Annotate_cached:
  "is_lazy m \<Longrightarrow> cached_of m = Some c \<Longrightarrow>
   Annotate m k v =
     (case Annotate c k v of Inl e \<Rightarrow> Inl e | Inr (err, c') \<Rightarrow> Inr (err, set_cached m c'))"
  by (cases m) auto

lemma String_settled: "settled m \<Longrightarrow> \<exists>s m'. String m = Inr (s, m') \<and> settled m'"
proof (induction "depth m" arbitrary: m rule: less_induct)
  case less
  show ?case
  proof (cases "is_lazy m")
    case False
    then show ?thesis by (cases m) auto
  next
    case True
    with less.prems obtain c where c: "cached_of m = Some c" "settled c"
      using settled_lazy by blast
    from less.hyps [OF depth_cached [OF c(1)] c(2)]
    obtain s c' where "String c = Inr (s, c')" "settled c'" by blast
    with True c show ?thesis
      by (simp add: String_cached settled_set_cached)
  qed
qed

lemma add_fields_Nil: "add_fields m [] = m"
  by (induction m "[] :: Fields" rule: add_fields.induct) (auto split: option.splits)

lemma add_fields_append: "add_fields (add_fields m a) b = add_fields m (a @ b)"
  by (induction m a rule: add_fields.induct) (auto split: option.splits)

lemma settled_add_fields: "settled (add_fields m a) = settled m"
  by (induction m a rule: add_fields.induct) (auto split: option.splits)

lemma annotated_add_fields: "settled m \<Longrightarrow> annotated (add_fields m a) = annotated m @ a"
  by (induction m a rule: add_fields.induct) (auto split: option.splits)

lemma add_fields_lazy:
  "is_lazy m \<Longrightarrow> cached_of m = Some c \<Longrightarrow> add_fields m a = set_cached m (add_fields c a)"
  by (cases m) auto

lemma Annotate_adds:
  "settled m \<Longrightarrow>
   Annotate m k v = Inr (if has_key m k then Some (already_exists k) else None,
                         add_fields m (if has_key m k then [] else [(k, v)]))"
proof (induction "depth m" arbitrary: m rule: less_induct)
  case less
  show ?case
  proof (cases "is_lazy m")
    case False
    then show ?thesis
      by (cases m) (auto simp: has_key_def annotate_fields_def)
  next
    case True
    with less.prems obtain c where c: "cached_of m = Some c" "settled c"
      using settled_lazy by blast
    have k: "has_key m k = has_key c k"
      using annotated_lazy [OF True c(1)] by (simp add: has_key_def)
    from less.hyps [OF depth_cached [OF c(1)] c(2)] True c k show ?thesis
      by (simp add: Annotate_cached add_fields_lazy)
  qed
qed

lemma annotate_all_adds:
  "settled m \<Longrightarrow> distinct (map fst kvs) \<Longrightarrow>
   annotate_all kvs m errs
     = Inr (errs @ map already_exists (filter (has_key m) (map fst kvs)),
            add_fields m (filter (\<lambda>(k, v). \<not> has_key m k) kvs))"
proof (induction kvs arbitrary: m errs)
  case Nil
  then show ?case by (simp add: add_fields_Nil)
next
  case (Cons kv kvs)
  obtain k v where kv: "kv = (k, v)" by (cases kv)
  let ?m' = "add_fields m (if has_key m k then [] else [(k, v)])"
  have st: "settled ?m'"
    using Cons.prems(1) by (simp add: settled_add_fields)
  from Cons.prems(2) kv have d: "distinct (map fst kvs)" and nk: "k \<notin> fst ` set kvs"
    by auto
  have same: "\<And>k'. k' \<in> fst ` set kvs \<Longrightarrow> has_key ?m' k' = has_key m k'"
    using nk Cons.prems(1) by (auto simp: has_key_def annotated_add_fields)
  have f1: "filter (has_key ?m') (map fst kvs) = filter (has_key m) (map fst kvs)"
    using same by (intro filter_cong) auto
  have f2: "filter (\<lambda>(k, v). \<not> has_key ?m' k) kvs = filter (\<lambda>(k, v). \<not> has_key m k) kvs"
    using same by (intro filter_cong) (auto simp: rev_image_eqI)
  show ?case
    using Annotate_adds [OF Cons.prems(1), of k v] Cons.IH [OF st d] kv f1 f2
    by (auto simp: add_fields_append add_fields_Nil)
qed

lemma ShouldLog_True: "ShouldLog l m = Inr (True, m1) \<Longrightarrow> Loggable m = Inr (True, m1)"
  by (auto simp: ShouldLog_def split: sum.splits prod.splits if_splits)

lemma ShouldLog_settled: "ShouldLog l m = Inr (True, m1) \<Longrightarrow> settled m1"
  by (rule Loggable_settled [OF ShouldLog_True])

section \<open>Swapping the sender\<close>

text \<open>
  C5. When \<open>SetSender\<close> with a non-nil sender returns nil, the new sender has the name and
  the LevelInfo the outgoing sender had before the call, the outgoing sender has been
  closed exactly once more (once in the trace, between the lock and the assignment), and
  the logger's sender is the new one.
\<close>

theorem SetSender_swaps:
  assumes "SetSender g (Some a) w = (None, g', w')"
  shows "sender_Name a w' = sender_Name (impl g) w
       \<and> sender_Level a w' = sender_Level (impl g) w
       \<and> close_count (senders w' (impl g)) = Suc (close_count (senders w (impl g)))
       \<and> events w' = events w @ [Locked, Closed (impl g), Assigned a, Unlocked]
       \<and> impl g' = a"
  using assms
  by (auto simp: SetSender_def Let_def sender_SetLevel_def sender_Close_def sender_SetName_def
      sender_Name_def sender_Level_def emit_def split: if_splits option.splits prod.splits)

theorem SetSender_swaps_witness:
  "fst (SetSender \<lparr>impl = 0, defaultLevel = Info\<rparr> (Some 1)
         \<lparr>senders = (\<lambda>a. \<lparr>sender_name = ''new'',
                            sender_level = \<lparr>Default = Trace, Threshold = Trace\<rparr>,
                            close_result = None, close_count = 0\<rparr>)
                     (0 := \<lparr>sender_name = ''old'',
                            sender_level = \<lparr>Default = Info, Threshold = Debug\<rparr>,
                            close_result = None, close_count = 0\<rparr>),
           events = []\<rparr>) = None
   \<and> sender_Name 1 (snd (snd (SetSender \<lparr>impl = 0, defaultLevel = Info\<rparr> (Some 1)
         \<lparr>senders = (\<lambda>a. \<lparr>sender_name = ''new'',
                            sender_level = \<lparr>Default = Trace, Threshold = Trace\<rparr>,
                            close_result = None, close_count = 0\<rparr>)
                     (0 := \<lparr>sender_name = ''old'',
                            sender_level = \<lparr>Default = Info, Threshold = Debug\<rparr>,
                            close_result = None, close_count = 0\<rparr>),
           events = []\<rparr>))) = ''old''
   \<and> sender_Level 1 (snd (snd (SetSender \<lparr>impl = 0, defaultLevel = Info\<rparr> (Some 1)
         \<lparr>senders = (\<lambda>a. \<lparr>sender_name = ''new'',
                            sender_level = \<lparr>Default = Trace, Threshold = Trace\<rparr>,
                            close_result = None, close_count = 0\<rparr>)
                     (0 := \<lparr>sender_name = ''old'',
                            sender_level = \<lparr>Default = Info, Threshold = Debug\<rparr>,
                            close_result = None, close_count = 0\<rparr>),
           events = []\<rparr>))) = \<lparr>Default = Info, Threshold = Debug\<rparr>
   \<and> close_count (senders (snd (snd (SetSender \<lparr>impl = 0, defaultLevel = Info\<rparr> (Some 1)
         \<lparr>senders = (\<lambda>a. \<lparr>sender_name = ''new'',
                            sender_level = \<lparr>Default = Trace, Threshold = Trace\<rparr>,
                            close_result = None, close_count = 0\<rparr>)
                     (0 := \<lparr>sender_name = ''old'',
                            sender_level = \<lparr>Default = Info, Threshold = Debug\<rparr>,
                            close_result = None, close_count = 0\<rparr>),
           events = []\<rparr>))) 0) = 1
   \<and> impl (fst (snd (SetSender \<lparr>impl = 0, defaultLevel = Info\<rparr> (Some 1)
         \<lparr>senders = (\<lambda>a. \<lparr>sender_name = ''new'',
                            sender_level = \<lparr>Default = Trace, Threshold = Trace\<rparr>,
                            close_result = None, close_count = 0\<rparr>)
                     (0 := \<lparr>sender_name = ''old'',
                            sender_level = \<lparr>Default = Info, Threshold = Debug\<rparr>,
                            close_result = None, close_count = 0\<rparr>),
           events = []\<rparr>))) = 1"
proof -
  let ?g = "\<lparr>impl = 0, defaultLevel = Info\<rparr>"
  let ?w = "\<lparr>senders = (\<lambda>a. \<lparr>sender_name = ''new'',
                            sender_level = \<lparr>Default = Trace, Threshold = Trace\<rparr>,
                            close_result = None, close_count = 0\<rparr>)
                     (0 := \<lparr>sender_name = ''old'',
                            sender_level = \<lparr>Default = Info, Threshold = Debug\<rparr>,
                            close_result = None, close_count = 0\<rparr>),
           events = []\<rparr>"
  let ?r = "SetSender ?g (Some 1) ?w"
  have ok: "fst ?r = None"
    by (simp add: SetSender_def Let_def sender_SetLevel_def sender_Close_def sender_Level_def
        emit_def Valid_def IsValid_def)
  then have h: "?r = (None, fst (snd ?r), snd (snd ?r))"
    by (metis prod.collapse)
  have pre: "sender_Name (impl ?g) ?w = ''old''"
    "sender_Level (impl ?g) ?w = \<lparr>Default = Info, Threshold = Debug\<rparr>"
    "close_count (senders ?w (impl ?g)) = 0"
    by (simp_all add: sender_Name_def sender_Level_def)
  from SetSender_swaps [OF h] pre ok show ?thesis
    by simp
qed

text \<open>
  C6. \<open>SetSender(nil)\<close> returns the configuration error and changes nothing; any call of
  \<open>SetSender\<close> that returns an error leaves the logger, and so its sender field, as it was.
\<close>

theorem SetSender_error_keeps_sender:
  "SetSender g None w = (Some ''cannot set the sender to nil'', g, w)
   \<and> (SetSender g s w = (Some err, g', w') \<longrightarrow> g' = g \<and> impl g' = impl g)"
  by (auto simp: SetSender_def Let_def split: if_splits option.splits prod.splits)

theorem SetSender_error_keeps_sender_witness:
  "SetSender \<lparr>impl = 0, defaultLevel = Info\<rparr> None
      \<lparr>senders = (\<lambda>a. \<lparr>sender_name = ''std'',
                          sender_level = \<lparr>Default = Info, Threshold = Debug\<rparr>,
                          close_result = Some ''file already closed'', close_count = 0\<rparr>),
        events = []\<rparr>
     = (Some ''cannot set the sender to nil'', \<lparr>impl = 0, defaultLevel = Info\<rparr>,
        \<lparr>senders = (\<lambda>a. \<lparr>sender_name = ''std'',
                          sender_level = \<lparr>Default = Info, Threshold = Debug\<rparr>,
                          close_result = Some ''file already closed'', close_count = 0\<rparr>),
        events = []\<rparr>)
   \<and> fst (SetSender \<lparr>impl = 0, defaultLevel = Info\<rparr> (Some 1)
      \<lparr>senders = (\<lambda>a. \<lparr>sender_name = ''std'',
                          sender_level = \<lparr>Default = Info, Threshold = Debug\<rparr>,
                          close_result = Some ''file already closed'', close_count = 0\<rparr>),
        events = []\<rparr>) = Some ''file already closed''
   \<and> fst (snd (SetSender \<lparr>impl = 0, defaultLevel = Info\<rparr> (Some 1)
      \<lparr>senders = (\<lambda>a. \<lparr>sender_name = ''std'',
                          sender_level = \<lparr>Default = Info, Threshold = Debug\<rparr>,
                          close_result = Some ''file already closed'', close_count = 0\<rparr>),
        events = []\<rparr>)) = \<lparr>impl = 0, defaultLevel = Info\<rparr>"
proof -
  let ?g = "\<lparr>impl = 0, defaultLevel = Info\<rparr>"
  let ?w = "\<lparr>senders = (\<lambda>a. \<lparr>sender_name = ''std'',
                          sender_level = \<lparr>Default = Info, Threshold = Debug\<rparr>,
                          close_result = Some ''file already closed'', close_count = 0\<rparr>),
        events = []\<rparr>"
  let ?r = "SetSender ?g (Some 1) ?w"
  have e: "fst ?r = Some ''file already closed''"
    by (simp add: SetSender_def Let_def sender_SetLevel_def sender_Close_def sender_Level_def
        emit_def Valid_def IsValid_def)
  then have h: "?r = (Some ''file already closed'', fst (snd ?r), snd (snd ?r))"
    by (metis prod.collapse)
  from SetSender_error_keeps_sender [of ?g ?w "Some 1" "''file already closed''"
      "fst (snd ?r)" "snd (snd ?r)"] h e
  show ?thesis by simp
qed


section \<open>Panic and fatal\<close>

text \<open>
  C7. For every value dispatched through \<open>EmergencyPanic\<close> or \<open>EmergencyFatal\<close>: when the
  sender's \<open>ShouldLog\<close> accepts the message, the message is handed to the sender's \<open>Send\<close>
  and after that the call panics with the message's string, or exits with status 1; when
  \<open>ShouldLog\<close> rejects it, nothing is sent and the call returns.
\<close>

theorem emergency_abort_after_send:
  "(ShouldLog (sender_Level (impl g) w) (ConvertToComposer Emergency msg) = Inr (True, m1)
      \<longrightarrow> (\<exists>str. EmergencyPanic g msg w
              = (Panicked str,
                 w\<lparr>events := events w
                    @ [RLocked, Sent (impl g) m1, PanicRaised str, RUnlocked]\<rparr>))
        \<and> EmergencyFatal g msg w
              = (Exited 1,
                 w\<lparr>events := events w @ [RLocked, Sent (impl g) m1, ProcessExit 1]\<rparr>))
   \<and> (ShouldLog (sender_Level (impl g) w) (ConvertToComposer Emergency msg) = Inr (False, m1)
      \<longrightarrow> EmergencyPanic g msg w = (Returned, w\<lparr>events := events w @ [RLocked, RUnlocked]\<rparr>)
        \<and> EmergencyFatal g msg w = (Returned, w\<lparr>events := events w @ [RLocked, RUnlocked]\<rparr>))"
proof -
  have acc: "\<exists>str. EmergencyPanic g msg w
              = (Panicked str,
                 w\<lparr>events := events w
                    @ [RLocked, Sent (impl g) m1, PanicRaised str, RUnlocked]\<rparr>)"
    if a: "ShouldLog (sender_Level (impl g) w) (ConvertToComposer Emergency msg) = Inr (True, m1)"
  proof -
    from String_settled [OF ShouldLog_settled [OF a]]
    obtain str m2 where "String m1 = Inr (str, m2)" by blast
    with a show ?thesis
      by (intro exI [of _ str])
         (simp add: EmergencyPanic_def sendPanic_def Let_def sender_Send_def emit_def
           sender_Level_def)
  qed
  show ?thesis
    using acc
    by (auto simp: EmergencyFatal_def sendPanic_def sendFatal_def Let_def
        sender_Send_def emit_def sender_Level_def EmergencyPanic_def)
qed

theorem emergency_abort_after_send_witness:
  "ShouldLog (sender_Level 0 \<lparr>senders = (\<lambda>a. \<lparr>sender_name = ''std'',
                          sender_level = \<lparr>Default = Info, Threshold = Emergency\<rparr>,
                          close_result = None, close_count = 0\<rparr>), events = []\<rparr>)
       (ConvertToComposer Emergency (InString ''fatal''))
     = Inr (True, StringMessage Emergency ''fatal'' [])
   \<and> EmergencyPanic \<lparr>impl = 0, defaultLevel = Info\<rparr> (InString ''fatal'')
        \<lparr>senders = (\<lambda>a. \<lparr>sender_name = ''std'',
                          sender_level = \<lparr>Default = Info, Threshold = Emergency\<rparr>,
                          close_result = None, close_count = 0\<rparr>), events = []\<rparr>
     = (Panicked ''fatal'',
        \<lparr>senders = (\<lambda>a. \<lparr>sender_name = ''std'',
                          sender_level = \<lparr>Default = Info, Threshold = Emergency\<rparr>,
                          close_result = None, close_count = 0\<rparr>),
         events = [RLocked, Sent 0 (StringMessage Emergency ''fatal'' []),
                   PanicRaised ''fatal'', RUnlocked]\<rparr>)
   \<and> EmergencyFatal \<lparr>impl = 0, defaultLevel = Info\<rparr> (InString ''fatal'')
        \<lparr>senders = (\<lambda>a. \<lparr>sender_name = ''std'',
                          sender_level = \<lparr>Default = Info, Threshold = Emergency\<rparr>,
                          close_result = None, close_count = 0\<rparr>), events = []\<rparr>
     = (Exited 1,
        \<lparr>senders = (\<lambda>a. \<lparr>sender_name = ''std'',
                          sender_level = \<lparr>Default = Info, Threshold = Emergency\<rparr>,
                          close_result = None, close_count = 0\<rparr>),
         events = [RLocked, Sent 0 (StringMessage Emergency ''fatal'' []), ProcessExit 1]\<rparr>)
   \<and> ShouldLog (sender_Level 0 \<lparr>senders = (\<lambda>a. \<lparr>sender_name = ''std'',
                          sender_level = \<lparr>Default = Info, Threshold = Emergency\<rparr>,
                          close_result = None, close_count = 0\<rparr>), events = []\<rparr>)
       (ConvertToComposer Emergency (InString []))
     = Inr (False, StringMessage Emergency [] [])
   \<and> EmergencyPanic \<lparr>impl = 0, defaultLevel = Info\<rparr> (InString [])
        \<lparr>senders = (\<lambda>a. \<lparr>sender_name = ''std'',
                          sender_level = \<lparr>Default = Info, Threshold = Emergency\<rparr>,
                          close_result = None, close_count = 0\<rparr>), events = []\<rparr>
     = (Returned,
        \<lparr>senders = (\<lambda>a. \<lparr>sender_name = ''std'',
                          sender_level = \<lparr>Default = Info, Threshold = Emergency\<rparr>,
                          close_result = None, close_count = 0\<rparr>),
         events = [RLocked, RUnlocked]\<rparr>)"
proof -
  let ?w = "\<lparr>senders = (\<lambda>a. \<lparr>sender_name = ''std'',
                          sender_level = \<lparr>Default = Info, Threshold = Emergency\<rparr>,
                          close_result = None, close_count = 0\<rparr>), events = []\<rparr>"
  let ?g = "\<lparr>impl = 0, defaultLevel = Info\<rparr>"
  have a: "ShouldLog (sender_Level (impl ?g) ?w) (ConvertToComposer Emergency (InString ''fatal''))
      = Inr (True, StringMessage Emergency ''fatal'' [])"
    by (simp add: ShouldLog_def sender_Level_def ConvertToComposer_def NewDefaultMessage_def
        effective_def)
  have r: "ShouldLog (sender_Level (impl ?g) ?w) (ConvertToComposer Emergency (InString []))
      = Inr (False, StringMessage Emergency [] [])"
    by (simp add: ShouldLog_def sender_Level_def ConvertToComposer_def NewDefaultMessage_def
        effective_def)
  from emergency_abort_after_send [of ?g ?w "InString ''fatal''" "StringMessage Emergency ''fatal'' []"] a
  obtain str where p: "EmergencyPanic ?g (InString ''fatal'') ?w
              = (Panicked str,
                 ?w\<lparr>events := events ?w
                    @ [RLocked, Sent (impl ?g) (StringMessage Emergency ''fatal'' []),
                       PanicRaised str, RUnlocked]\<rparr>)"
    and f: "EmergencyFatal ?g (InString ''fatal'') ?w
              = (Exited 1,
                 ?w\<lparr>events := events ?w @ [RLocked, Sent (impl ?g) (StringMessage Emergency ''fatal'' []), ProcessExit 1]\<rparr>)"
    by blast
  have s: "str = ''fatal''"
    using p by (simp add: EmergencyPanic_def sendPanic_def ShouldLog_def sender_Level_def
        ConvertToComposer_def NewDefaultMessage_def effective_def Let_def)
  from emergency_abort_after_send [of ?g ?w "InString []" "StringMessage Emergency [] []"] r
  have q: "EmergencyPanic ?g (InString []) ?w = (Returned, ?w\<lparr>events := events ?w @ [RLocked, RUnlocked]\<rparr>)"
    by blast
  from a p f s r q show ?thesis
    by (simp add: sender_Level_def)
qed

section \<open>The annotating sender\<close>

text \<open>
  C8. When the inner sender's level accepts the composer, \<open>annotatingSender.Send\<close> tries
  every entry of its mapping: an entry whose key the composer already carries fails and
  leaves the composer's value, every other entry is added. If any entry failed, the
  failures, joined by \<open>;\<close> and a newline, go to the error handler in one call; the
  composer is then handed to the inner sender's \<open>Send\<close> in either case. The composer
  handed on is the caller's composer, as \<open>ShouldLog\<close> left it, with the new entries added
  to its annotations and nothing else changed; \<open>ShouldLog\<close> leaves the composer as its
  \<open>Loggable\<close> does, which is unchanged when the composer is not a lazy one.
\<close>

theorem annotating_Send_forwards:
  assumes "ShouldLog (sender_Level (Sender s) w) m = Inr (True, m1)"
    and "distinct (map fst (annotations s))"
  shows "annotating_Send s m w =
           (let errs = map already_exists (filter (has_key m1) (map fst (annotations s)));
                m2 = add_fields m1 (filter (\<lambda>(k, v). \<not> has_key m1 k) (annotations s))
            in (Returned,
                w\<lparr>events := events w
                   @ (if errs = [] then [] else [Handled (Sender s) (join separator errs) m2])
                   @ [Sent (Sender s) m2]\<rparr>))
         \<and> annotated (add_fields m1 (filter (\<lambda>(k, v). \<not> has_key m1 k) (annotations s)))
             = annotated m1 @ filter (\<lambda>(k, v). \<not> has_key m1 k) (annotations s)
         \<and> Loggable m = Inr (True, m1)
         \<and> (\<not> is_lazy m \<longrightarrow> m1 = m)"
proof -
  have st: "settled m1"
    using assms(1) by (rule ShouldLog_settled)
  have lg: "Loggable m = Inr (True, m1)"
    using assms(1) by (rule ShouldLog_True)
  have same: "\<not> is_lazy m \<longrightarrow> m1 = m"
    using lg by (cases m) auto
  from annotate_all_adds [OF st assms(2), of "[]"] assms(1) st
  have "annotating_Send s m w =
           (let errs = map already_exists (filter (has_key m1) (map fst (annotations s)));
                m2 = add_fields m1 (filter (\<lambda>(k, v). \<not> has_key m1 k) (annotations s))
            in (Returned,
                w\<lparr>events := events w
                   @ (if errs = [] then [] else [Handled (Sender s) (join separator errs) m2])
                   @ [Sent (Sender s) m2]\<rparr>))
         \<and> annotated (add_fields m1 (filter (\<lambda>(k, v). \<not> has_key m1 k) (annotations s)))
             = annotated m1 @ filter (\<lambda>(k, v). \<not> has_key m1 k) (annotations s)"
    by (simp add: annotating_Send_def Let_def sender_Send_def ErrorHandler_def emit_def
        annotated_add_fields)
  with lg same show ?thesis by blast
qed

theorem annotating_Send_forwards_witness:
  "ShouldLog (sender_Level 0 \<lparr>senders = (\<lambda>a. \<lparr>sender_name = ''inner'',
                          sender_level = \<lparr>Default = Info, Threshold = Debug\<rparr>,
                          close_result = None, close_count = 0\<rparr>), events = []\<rparr>)
       (NewFieldsProducerMessage Notice (Returns [(''k'', ''old'')]))
     = Inr (True, FieldsProducerMessage (Returns [(''k'', ''old'')])
                    (Some (FieldMessage Notice [(''k'', ''old'')])) Notice 1)
   \<and> distinct (map fst [(''k'', ''v''), (''host'', ''h1'')])
   \<and> annotating_Send \<lparr>Sender = 0, annotations = [(''k'', ''v''), (''host'', ''h1'')]\<rparr>
              (NewFieldsProducerMessage Notice (Returns [(''k'', ''old'')]))
              \<lparr>senders = (\<lambda>a. \<lparr>sender_name = ''inner'',
                          sender_level = \<lparr>Default = Info, Threshold = Debug\<rparr>,
                          close_result = None, close_count = 0\<rparr>), events = []\<rparr>
       = (Returned,
          \<lparr>senders = (\<lambda>a. \<lparr>sender_name = ''inner'',
                          sender_level = \<lparr>Default = Info, Threshold = Debug\<rparr>,
                          close_result = None, close_count = 0\<rparr>),
           events = [Handled 0 ''key k already exists''
                       (FieldsProducerMessage (Returns [(''k'', ''old'')])
                          (Some (FieldMessage Notice [(''k'', ''old''), (''host'', ''h1'')]))
                          Notice 1),
                     Sent 0
                       (FieldsProducerMessage (Returns [(''k'', ''old'')])
                          (Some (FieldMessage Notice [(''k'', ''old''), (''host'', ''h1'')]))
                          Notice 1)]\<rparr>)"
proof -
  let ?w = "\<lparr>senders = (\<lambda>a. \<lparr>sender_name = ''inner'',
                          sender_level = \<lparr>Default = Info, Threshold = Debug\<rparr>,
                          close_result = None, close_count = 0\<rparr>), events = []\<rparr>"
  let ?s = "\<lparr>Sender = 0, annotations = [(''k'', ''v''), (''host'', ''h1'')]\<rparr>"
  let ?m = "NewFieldsProducerMessage Notice (Returns [(''k'', ''old'')])"
  let ?m1 = "FieldsProducerMessage (Returns [(''k'', ''old'')])
                    (Some (FieldMessage Notice [(''k'', ''old'')])) Notice 1"
  have a: "ShouldLog (sender_Level (Sender ?s) ?w) ?m = Inr (True, ?m1)"
    by (simp add: ShouldLog_def sender_Level_def NewFieldsProducerMessage_def NewFields_def
        effective_def)
  have d: "distinct (map fst (annotations ?s))"
    by simp
  from annotating_Send_forwards [OF a d] a d show ?thesis
    by (simp add: has_key_def already_exists_def sender_Level_def Let_def)
qed


section \<open>The lock\<close>











end
